theory Spec2Isabelle
  imports Main
begin

section \<open>The chat gateway: sessions, groups and message routing\<close>

text \<open>
  A shallow embedding of \<^verbatim>\<open>src/chat/chat.gateway.ts\<close>. The class \<^verbatim>\<open>ChatGateway\<close> keeps two
  mutable arrays, \<^verbatim>\<open>users\<close> and \<^verbatim>\<open>groups\<close>; every handler reads and mutates them and
  returns an acknowledgment object. Handlers are modelled as functions from the state
  to the new state, the acknowledgment and the list of transport calls made
  (\<^verbatim>\<open>client.join\<close>, \<^verbatim>\<open>client.leave\<close>, \<^verbatim>\<open>server.to(room).emit(event, payload)\<close>), in the order the
  source makes them. The two values the source takes from its environment, the wall
  clock (\<^verbatim>\<open>new Date().toISOString()\<close>) and the random identifier of
  \<^verbatim>\<open>generateUserId\<close>, are parameters of the handlers. The \<^verbatim>\<open>console.log\<close> calls are left out.
\<close>

subsection \<open>Data model\<close>

record User =
  id_user :: string
  username :: string
  socketId :: string

record Group =
  name :: string
  members :: "string list"

record ChatGateway =
  users :: "User list"
  groups :: "Group list"

definition init :: ChatGateway where
  "init = \<lparr>users = [], groups = []\<rparr>"

text \<open>The acknowledgment objects returned by the handlers, one constructor per shape.\<close>

datatype reply =
    Ack bool string
  | AckMembers bool string "string list"
  | UsersReply "string list"
  | GroupsReply "(string \<times> nat) list"
  | GroupDetails bool string "string list"
  | NoReply

text \<open>The payloads pushed through the transport, and the transport calls themselves.\<close>

datatype payload =
    PrivatePayload string string string
  | NotificationPayload string string string
  | GroupPayload string string string string

datatype effect =
    Emit string string payload
  | JoinRoom string string
  | LeaveRoom string string

subsection \<open>Array helpers\<close>

text \<open>
  \<^verbatim>\<open>Array.prototype.find\<close> is \<^const>\<open>List.find\<close>: the first element that satisfies the
  predicate. The object it returns is the element of the array itself, so an assignment
  to one of its fields changes that element in place and no other: \<open>update_first\<close>.
\<close>

fun update_first :: "('a \<Rightarrow> bool) \<Rightarrow> ('a \<Rightarrow> 'a) \<Rightarrow> 'a list \<Rightarrow> 'a list" where
  "update_first P f [] = []"
| "update_first P f (x # xs) = (if P x then f x # xs else x # update_first P f xs)"

definition room :: "string \<Rightarrow> string" where
  "room groupName = ''group:'' @ groupName"

subsection \<open>Handlers\<close>

definition handleConnection :: "string \<Rightarrow> ChatGateway \<Rightarrow> ChatGateway" where
  "handleConnection c s = s"

definition handleDisconnect :: "string \<Rightarrow> ChatGateway \<Rightarrow> ChatGateway" where
  "handleDisconnect c s =
     (case find (\<lambda>u. socketId u = c) (users s) of
        None \<Rightarrow> s
      | Some user \<Rightarrow>
          s\<lparr>users := filter (\<lambda>u. socketId u \<noteq> c) (users s),
            groups := map (\<lambda>g. g\<lparr>members := filter (\<lambda>m. m \<noteq> username user) (members g)\<rparr>)
                        (groups s)\<rparr>)"

definition handleRegister ::
  "string \<Rightarrow> string \<Rightarrow> string \<Rightarrow> ChatGateway \<Rightarrow> ChatGateway \<times> reply \<times> effect list" where
  "handleRegister newId uname c s =
     (case find (\<lambda>u. username u = uname) (users s) of
        Some existingUser \<Rightarrow>
          if socketId existingUser \<noteq> c
          then (s\<lparr>users := update_first (\<lambda>u. username u = uname) (\<lambda>u. u\<lparr>socketId := c\<rparr>) (users s)\<rparr>,
                Ack True ''Reconnected successfully'', [])
          else (s, Ack False ''Username already taken'', [])
      | None \<Rightarrow>
          (s\<lparr>users := users s @ [\<lparr>id_user = newId, username = uname, socketId = c\<rparr>]\<rparr>,
           Ack True ''Registered successfully'', []))"

definition handlePrivateMessage ::
  "string \<Rightarrow> string \<Rightarrow> string \<Rightarrow> string \<Rightarrow> ChatGateway \<Rightarrow> ChatGateway \<times> reply \<times> effect list" where
  "handlePrivateMessage ts to message c s =
     (case find (\<lambda>u. socketId u = c) (users s) of
        None \<Rightarrow> (s, Ack False ''You are not registered'', [])
      | Some sender \<Rightarrow>
          (case find (\<lambda>u. username u = to) (users s) of
             None \<Rightarrow> (s, Ack False ''Recipient not found'', [])
           | Some recipient \<Rightarrow>
               (s, Ack True ''Message sent'',
                [Emit (socketId recipient) ''privateMessage''
                   (PrivatePayload (username sender) message ts)])))"

definition handleJoinGroup ::
  "string \<Rightarrow> string \<Rightarrow> string \<Rightarrow> ChatGateway \<Rightarrow> ChatGateway \<times> reply \<times> effect list" where
  "handleJoinGroup ts groupName c s =
     (case find (\<lambda>u. socketId u = c) (users s) of
        None \<Rightarrow> (s, Ack False ''You are not registered'', [])
      | Some user \<Rightarrow>
          let (grp, gs) =
                (case find (\<lambda>g. name g = groupName) (groups s) of
                   Some g \<Rightarrow> (g, groups s)
                 | None \<Rightarrow>
                     (\<lparr>name = groupName, members = []\<rparr>,
                      groups s @ [\<lparr>name = groupName, members = []\<rparr>]));
              ms = (if username user \<in> set (members grp) then members grp
                    else members grp @ [username user])
          in (s\<lparr>groups := update_first (\<lambda>g. name g = groupName) (\<lambda>g. g\<lparr>members := ms\<rparr>) gs\<rparr>,
              AckMembers True ''Joined group successfully'' ms,
              [JoinRoom c (room groupName),
               Emit (room groupName) ''groupNotification''
                 (NotificationPayload groupName (username user @ '' joined the group'') ts)]))"

definition handleLeaveGroup ::
  "string \<Rightarrow> string \<Rightarrow> string \<Rightarrow> ChatGateway \<Rightarrow> ChatGateway \<times> reply \<times> effect list" where
  "handleLeaveGroup ts groupName c s =
     (case find (\<lambda>u. socketId u = c) (users s) of
        None \<Rightarrow> (s, Ack False ''You are not registered'', [])
      | Some user \<Rightarrow>
          (case find (\<lambda>g. name g = groupName) (groups s) of
             None \<Rightarrow> (s, Ack False ''Group not found'', [])
           | Some grp \<Rightarrow>
               (s\<lparr>groups := update_first (\<lambda>g. name g = groupName)
                    (\<lambda>g. g\<lparr>members := filter (\<lambda>m. m \<noteq> username user) (members grp)\<rparr>)
                    (groups s)\<rparr>,
                Ack True ''Left group successfully'',
                [LeaveRoom c (room groupName),
                 Emit (room groupName) ''groupNotification''
                   (NotificationPayload groupName (username user @ '' left the group'') ts)])))"

definition handleGroupMessage ::
  "string \<Rightarrow> string \<Rightarrow> string \<Rightarrow> string \<Rightarrow> ChatGateway \<Rightarrow> ChatGateway \<times> reply \<times> effect list" where
  "handleGroupMessage ts gname message c s =
     (case find (\<lambda>u. socketId u = c) (users s) of
        None \<Rightarrow> (s, Ack False ''You are not registered'', [])
      | Some sender \<Rightarrow>
          (case find (\<lambda>g. name g = gname) (groups s) of
             None \<Rightarrow> (s, Ack False ''Group not found'', [])
           | Some grp \<Rightarrow>
               if username sender \<notin> set (members grp)
               then (s, Ack False ''You are not a member of this group'', [])
               else (s, Ack True ''Group message sent'',
                     [Emit (room gname) ''groupMessage''
                        (GroupPayload gname (username sender) message ts)])))"

definition handleGetUsers :: "ChatGateway \<Rightarrow> ChatGateway \<times> reply \<times> effect list" where
  "handleGetUsers s = (s, UsersReply (map username (users s)), [])"

definition handleGetGroups :: "ChatGateway \<Rightarrow> ChatGateway \<times> reply \<times> effect list" where
  "handleGetGroups s = (s, GroupsReply (map (\<lambda>g. (name g, length (members g))) (groups s)), [])"

definition handleGetGroupDetails ::
  "string \<Rightarrow> ChatGateway \<Rightarrow> ChatGateway \<times> reply \<times> effect list" where
  "handleGetGroupDetails groupName s =
     (case find (\<lambda>g. name g = groupName) (groups s) of
        None \<Rightarrow> (s, Ack False ''Group not found'', [])
      | Some grp \<Rightarrow> (s, GroupDetails True (name grp) (members grp), []))"

subsection \<open>Events\<close>

text \<open>
  The framework dispatches an inbound event to the handler subscribed to its name and
  calls \<^verbatim>\<open>handleConnection\<close> and \<^verbatim>\<open>handleDisconnect\<close> itself. An event carries its message
  body and the environment values its handler reads; the connection identifier comes
  with it from the transport.
\<close>

datatype event =
    Connect
  | Disconnect
  | Register string string
  | PrivateMessage string string string
  | JoinGroup string string
  | LeaveGroup string string
  | GroupMessage string string string
  | GetUsers
  | GetGroups
  | GetGroupDetails string

fun step :: "string \<Rightarrow> event \<Rightarrow> ChatGateway \<Rightarrow> ChatGateway \<times> reply \<times> effect list" where
  "step c Connect s = (handleConnection c s, NoReply, [])"
| "step c Disconnect s = (handleDisconnect c s, NoReply, [])"
| "step c (Register newId uname) s = handleRegister newId uname c s"
| "step c (PrivateMessage ts to message) s = handlePrivateMessage ts to message c s"
| "step c (JoinGroup ts groupName) s = handleJoinGroup ts groupName c s"
| "step c (LeaveGroup ts groupName) s = handleLeaveGroup ts groupName c s"
| "step c (GroupMessage ts gname message) s = handleGroupMessage ts gname message c s"
| "step c GetUsers s = handleGetUsers s"
| "step c GetGroups s = handleGetGroups s"
| "step c (GetGroupDetails groupName) s = handleGetGroupDetails groupName s"

text \<open>The state after a sequence of events, each with the connection it arrives on.\<close>

fun run :: "(string \<times> event) list \<Rightarrow> ChatGateway \<Rightarrow> ChatGateway" where
  "run [] s = s"
| "run ((c, e) # es) s = run es (fst (step c e s))"









section \<open>Facts about the array helpers\<close>

lemmas handler_defs =
  handleConnection_def handleDisconnect_def handleRegister_def handlePrivateMessage_def
  handleJoinGroup_def handleLeaveGroup_def handleGroupMessage_def handleGetUsers_def
  handleGetGroups_def handleGetGroupDetails_def

lemma find_Some_holds: "find P xs = Some x \<Longrightarrow> P x \<and> x \<in> set xs"
  by (induction xs) (auto split: if_splits)

lemma find_exists_Some:
  "\<exists>x \<in> set xs. P x \<Longrightarrow> \<exists>y. find P xs = Some y"
  by (cases "find P xs") (auto simp: find_None_iff)

lemma find_username_None:
  "find (\<lambda>u. username u = n) xs = None \<longleftrightarrow> n \<notin> set (map username xs)"
  by (induction xs) auto

lemma find_distinct_username:
  "distinct (map username xs) \<Longrightarrow> u \<in> set xs \<Longrightarrow> find (\<lambda>v. username v = username u) xs = Some u"
  by (induction xs) auto

lemma map_username_update_first:
  "map username (update_first P (\<lambda>u. u\<lparr>socketId := c\<rparr>) xs) = map username xs"
  by (induction xs) auto

lemma update_first_distinct_map:
  "distinct (map username xs) \<Longrightarrow>
   update_first (\<lambda>u. username u = n) f xs = map (\<lambda>v. if username v = n then f v else v) xs"
proof (induction xs)
  case Nil
  then show ?case by simp
next
  case (Cons x xs)
  show ?case
  proof (cases "username x = n")
    case True
    with Cons.prems have "n \<notin> username ` set xs" by simp
    then have "\<forall>v \<in> set xs. username v \<noteq> n" by blast
    then have "map (\<lambda>v. if username v = n then f v else v) xs = xs"
      by (simp add: map_idI)
    with True show ?thesis by simp
  next
    case False
    with Cons show ?thesis by simp
  qed
qed

lemma update_first_find:
  "find P xs = Some x \<Longrightarrow> P (f x) \<Longrightarrow> find P (update_first P f xs) = Some (f x)"
  by (induction xs) (auto split: if_splits)

lemma update_first_id:
  "find P xs = Some x \<Longrightarrow> f x = x \<Longrightarrow> update_first P f xs = xs"
  by (induction xs) (auto split: if_splits)

lemma find_append_new:
  "find P xs = None \<Longrightarrow> P y \<Longrightarrow> find P (xs @ [y]) = Some y"
  by (induction xs) (auto split: if_splits)

lemma update_first_append_new:
  "find P xs = None \<Longrightarrow> P y \<Longrightarrow> update_first P f (xs @ [y]) = xs @ [f y]"
  by (induction xs) (auto split: if_splits)

lemma map_name_update_first:
  "map name (update_first P (\<lambda>g. g\<lparr>members := ms\<rparr>) xs) = map name xs"
  by (induction xs) auto

lemma names_update_first:
  "name ` set (update_first P (\<lambda>g. g\<lparr>members := ms\<rparr>) xs) = name ` set xs"
proof -
  have "set (map name (update_first P (\<lambda>g. g\<lparr>members := ms\<rparr>) xs)) = set (map name xs)"
    by (simp only: map_name_update_first)
  then show ?thesis by simp
qed

lemma in_set_update_first:
  "y \<in> set (update_first P f xs) \<Longrightarrow> y \<in> set xs \<or> (\<exists>x. find P xs = Some x \<and> y = f x)"
  by (induction xs) (auto split: if_splits)

section \<open>Invariants of the reachable states\<close>

text \<open>
  The reachable states are the states \<open>run es init\<close>. Three facts hold of all of them and
  are kept by every event: user names are pairwise different, no member list holds a
  name twice, and the list of group names only grows.
\<close>

lemma step_users_distinct:
  "distinct (map username (users s)) \<Longrightarrow> distinct (map username (users (fst (step c e s))))"
  by (cases e)
     (auto simp: handler_defs map_username_update_first find_username_None distinct_map_filter
        Let_def split: option.splits prod.splits)

lemma run_users_distinct:
  "distinct (map username (users s)) \<Longrightarrow> distinct (map username (users (run es s)))"
proof (induction es arbitrary: s)
  case Nil
  then show ?case by simp
next
  case (Cons a es)
  obtain c e where a: "a = (c, e)" by (cases a)
  from Cons.prems have "distinct (map username (users (fst (step c e s))))"
    by (rule step_users_distinct)
  then show ?case using Cons.IH a by simp
qed

lemma init_users_distinct: "distinct (map username (users init))"
  by (simp add: init_def)

text \<open>Joining a group one already belongs to changes nothing.\<close>

lemma join_when_member:
  assumes "find (\<lambda>u. socketId u = c) (users s) = Some usr"
    and "find (\<lambda>g. name g = gname) (groups s) = Some grp"
    and "username usr \<in> set (members grp)"
  shows "handleJoinGroup ts gname c s =
     (s, AckMembers True ''Joined group successfully'' (members grp),
      [JoinRoom c (room gname),
       Emit (room gname) ''groupNotification''
         (NotificationPayload gname (username usr @ '' joined the group'') ts)])"
proof -
  have "update_first (\<lambda>g. name g = gname) (\<lambda>g. g\<lparr>members := members grp\<rparr>) (groups s) = groups s"
    using assms(2) by (rule update_first_id) simp
  with assms show ?thesis
    by (simp add: handleJoinGroup_def)
qed

lemma join_makes_member:
  assumes "find (\<lambda>u. socketId u = c) (users s) = Some usr"
  shows "\<exists>grp. find (\<lambda>g. name g = gname) (groups (fst (handleJoinGroup ts gname c s))) = Some grp
           \<and> username usr \<in> set (members grp)
           \<and> fst (snd (handleJoinGroup ts gname c s)) =
               AckMembers True ''Joined group successfully'' (members grp)"
proof (cases "find (\<lambda>g. name g = gname) (groups s)")
  case None
  have "update_first (\<lambda>g. name g = gname) (\<lambda>g. g\<lparr>members := [username usr]\<rparr>)
          (groups s @ [\<lparr>name = gname, members = []\<rparr>])
        = groups s @ [\<lparr>name = gname, members = [username usr]\<rparr>]"
    using None by (simp add: update_first_append_new)
  moreover have "find (\<lambda>g. name g = gname) (groups s @ [\<lparr>name = gname, members = [username usr]\<rparr>])
        = Some \<lparr>name = gname, members = [username usr]\<rparr>"
    using None by (simp add: find_append_new)
  ultimately show ?thesis
    using assms None by (simp add: handleJoinGroup_def Let_def)
next
  case (Some grp)
  then have n: "name grp = gname"
    using find_Some_holds by fastforce
  define ms where "ms = (if username usr \<in> set (members grp) then members grp
                         else members grp @ [username usr])"
  have "find (\<lambda>g. name g = gname) (update_first (\<lambda>g. name g = gname) (\<lambda>g. g\<lparr>members := ms\<rparr>) (groups s))
        = Some (grp\<lparr>members := ms\<rparr>)"
    using Some by (rule update_first_find) (simp add: n)
  moreover have "username usr \<in> set ms"
    by (simp add: ms_def)
  ultimately show ?thesis
    using assms Some by (simp add: handleJoinGroup_def Let_def ms_def)
qed

lemma join_keeps_users: "users (fst (handleJoinGroup ts gname c s)) = users s"
  by (simp add: handleJoinGroup_def Let_def split: option.splits prod.splits)

lemma step_members_distinct:
  assumes "\<forall>g \<in> set (groups s). distinct (members g)"
  shows "\<forall>g \<in> set (groups (fst (step c e s))). distinct (members g)"
proof (cases e)
  case (JoinGroup ts gname)
  show ?thesis
  proof (cases "find (\<lambda>u. socketId u = c) (users s)")
    case None
    with JoinGroup assms show ?thesis by (simp add: handleJoinGroup_def)
  next
    case (Some usr)
    show ?thesis
    proof (cases "find (\<lambda>g. name g = gname) (groups s)")
      case None
      have "update_first (\<lambda>g. name g = gname) (\<lambda>g. g\<lparr>members := [username usr]\<rparr>)
          (groups s @ [\<lparr>name = gname, members = []\<rparr>])
        = groups s @ [\<lparr>name = gname, members = [username usr]\<rparr>]"
        using None by (simp add: update_first_append_new)
      with JoinGroup Some None assms show ?thesis
        by (simp add: handleJoinGroup_def Let_def)
    next
      case g: (Some grp)
      define ms where "ms = (if username usr \<in> set (members grp) then members grp
                         else members grp @ [username usr])"
      from find_Some_holds [OF g] assms have "distinct (members grp)"
        by simp
      then have dm: "distinct ms" by (simp add: ms_def)
      have gs: "groups (fst (step c e s)) =
          update_first (\<lambda>g. name g = gname) (\<lambda>g. g\<lparr>members := ms\<rparr>) (groups s)"
        using JoinGroup Some g by (simp add: handleJoinGroup_def Let_def ms_def)
      show ?thesis
      proof
        fix y assume "y \<in> set (groups (fst (step c e s)))"
        then have "y \<in> set (update_first (\<lambda>g. name g = gname) (\<lambda>g. g\<lparr>members := ms\<rparr>) (groups s))"
          by (simp only: gs)
        then have "y \<in> set (groups s) \<or> (\<exists>x. y = x\<lparr>members := ms\<rparr>)"
          by (blast dest: in_set_update_first)
        with assms dm show "distinct (members y)" by auto
      qed
    qed
  qed
next
  case (LeaveGroup ts gname)
  show ?thesis
  proof (cases "find (\<lambda>u. socketId u = c) (users s)")
    case None
    with LeaveGroup assms show ?thesis by (simp add: handleLeaveGroup_def)
  next
    case (Some usr)
    show ?thesis
    proof (cases "find (\<lambda>g. name g = gname) (groups s)")
      case None
      with LeaveGroup Some assms show ?thesis by (simp add: handleLeaveGroup_def)
    next
      case g: (Some grp)
      define ms where "ms = filter (\<lambda>m. m \<noteq> username usr) (members grp)"
      from find_Some_holds [OF g] assms have "distinct (members grp)"
        by simp
      then have dm: "distinct ms" by (simp add: ms_def)
      have gs: "groups (fst (step c e s)) =
          update_first (\<lambda>g. name g = gname) (\<lambda>g. g\<lparr>members := ms\<rparr>) (groups s)"
        using LeaveGroup Some g by (simp add: handleLeaveGroup_def ms_def)
      show ?thesis
      proof
        fix y assume "y \<in> set (groups (fst (step c e s)))"
        then have "y \<in> set (update_first (\<lambda>g. name g = gname) (\<lambda>g. g\<lparr>members := ms\<rparr>) (groups s))"
          by (simp only: gs)
        then have "y \<in> set (groups s) \<or> (\<exists>x. y = x\<lparr>members := ms\<rparr>)"
          by (blast dest: in_set_update_first)
        with assms dm show "distinct (members y)" by auto
      qed
    qed
  qed
next
  case Disconnect
  with assms show ?thesis
    by (auto simp: handleDisconnect_def split: option.splits)
next
  case Connect
  with assms show ?thesis by (simp add: handleConnection_def)
next
  case (Register newId uname)
  with assms show ?thesis by (simp add: handleRegister_def split: option.splits)
next
  case (PrivateMessage ts to message)
  with assms show ?thesis by (simp add: handlePrivateMessage_def split: option.splits)
next
  case (GroupMessage ts gname message)
  with assms show ?thesis by (simp add: handleGroupMessage_def split: option.splits)
next
  case GetUsers
  with assms show ?thesis by (simp add: handleGetUsers_def)
next
  case GetGroups
  with assms show ?thesis by (simp add: handleGetGroups_def)
next
  case (GetGroupDetails gname)
  with assms show ?thesis by (simp add: handleGetGroupDetails_def split: option.splits)
qed

lemma run_members_distinct:
  "\<forall>g \<in> set (groups s). distinct (members g) \<Longrightarrow>
   \<forall>g \<in> set (groups (run es s)). distinct (members g)"
proof (induction es arbitrary: s)
  case Nil
  then show ?case by simp
next
  case (Cons a es)
  obtain c e where a: "a = (c, e)" by (cases a)
  from Cons.prems have "\<forall>g \<in> set (groups (fst (step c e s))). distinct (members g)"
    by (rule step_members_distinct)
  then have "\<forall>g \<in> set (groups (run es (fst (step c e s)))). distinct (members g)"
    by (rule Cons.IH)
  then show ?case using a by simp
qed

lemma step_group_names:
  "set (map name (groups s)) \<subseteq> set (map name (groups (fst (step c e s))))"
proof (cases e)
  case Disconnect
  then show ?thesis
    by (simp add: handleDisconnect_def image_image split: option.splits)
next
  case (JoinGroup ts gname)
  then show ?thesis
    by (auto simp: handleJoinGroup_def Let_def names_update_first split: option.splits prod.splits)
next
  case (LeaveGroup ts gname)
  then show ?thesis
    by (simp add: handleLeaveGroup_def names_update_first split: option.splits)
next
  case Connect
  then show ?thesis by (simp add: handleConnection_def)
next
  case (Register newId uname)
  then show ?thesis by (simp add: handleRegister_def split: option.splits)
next
  case (PrivateMessage ts to message)
  then show ?thesis by (simp add: handlePrivateMessage_def split: option.splits)
next
  case (GroupMessage ts gname message)
  then show ?thesis by (simp add: handleGroupMessage_def split: option.splits)
next
  case GetUsers
  then show ?thesis by (simp add: handleGetUsers_def)
next
  case GetGroups
  then show ?thesis by (simp add: handleGetGroups_def)
next
  case (GetGroupDetails gname)
  then show ?thesis by (simp add: handleGetGroupDetails_def split: option.splits)
qed

lemma run_group_names:
  "set (map name (groups s)) \<subseteq> set (map name (groups (run es s)))"
proof (induction es arbitrary: s)
  case Nil
  show ?case by simp
next
  case (Cons a es)
  obtain c e where a: "a = (c, e)" by (cases a)
  have "set (map name (groups s)) \<subseteq> set (map name (groups (fst (step c e s))))"
    by (rule step_group_names)
  also have "\<dots> \<subseteq> set (map name (groups (run es (fst (step c e s)))))"
    by (rule Cons.IH)
  finally show ?case using a by simp
qed

section \<open>Registration\<close>

text \<open>
  C1. In every reachable state, \<open>handleRegister\<close> for the name \<open>uname\<close> on connection \<open>c\<close>
  decides as follows. When no session has that name, a session with the fresh
  identifier, the name and \<open>c\<close> is appended and the acknowledgment is the successful
  ``Registered successfully''. When a session has that name and another socket
  identifier, the socket identifier of the session with that name becomes \<open>c\<close>, nothing
  is appended and the acknowledgment is the successful ``Reconnected successfully''.
  When a session has that name and the socket identifier \<open>c\<close>, the acknowledgment is the
  failure ``Username already taken'' and the state is the one before.
\<close>

theorem register_decision_rule:
  "(\<not> (\<exists>u \<in> set (users (run es init)). username u = uname) \<longrightarrow>
      handleRegister newId uname c (run es init) =
        ((run es init)\<lparr>users := users (run es init) @ [\<lparr>id_user = newId, username = uname, socketId = c\<rparr>]\<rparr>,
         Ack True ''Registered successfully'', []))
   \<and> (\<forall>u \<in> set (users (run es init)). username u = uname \<and> socketId u \<noteq> c \<longrightarrow>
      handleRegister newId uname c (run es init) =
        ((run es init)\<lparr>users := map (\<lambda>v. if username v = uname then v\<lparr>socketId := c\<rparr> else v)
                                   (users (run es init))\<rparr>,
         Ack True ''Reconnected successfully'', []))
   \<and> (\<forall>u \<in> set (users (run es init)). username u = uname \<and> socketId u = c \<longrightarrow>
      handleRegister newId uname c (run es init) =
        (run es init, Ack False ''Username already taken'', []))"
proof -
  define s where "s = run es init"
  have d: "distinct (map username (users s))"
    unfolding s_def using init_users_distinct by (rule run_users_distinct)
  have fresh: "handleRegister newId uname c s =
        (s\<lparr>users := users s @ [\<lparr>id_user = newId, username = uname, socketId = c\<rparr>]\<rparr>,
         Ack True ''Registered successfully'', [])"
    if "\<not> (\<exists>u \<in> set (users s). username u = uname)"
  proof -
    from that have "find (\<lambda>u. username u = uname) (users s) = None"
      by (simp add: find_None_iff)
    then show ?thesis by (simp add: handleRegister_def)
  qed
  have other: "handleRegister newId uname c s =
        (s\<lparr>users := map (\<lambda>v. if username v = uname then v\<lparr>socketId := c\<rparr> else v) (users s)\<rparr>,
         Ack True ''Reconnected successfully'', [])"
    if "u \<in> set (users s)" "username u = uname" "socketId u \<noteq> c" for u
  proof -
    from d that have "find (\<lambda>v. username v = uname) (users s) = Some u"
      using find_distinct_username by blast
    with that d show ?thesis
      by (simp add: handleRegister_def update_first_distinct_map)
  qed
  have same: "handleRegister newId uname c s = (s, Ack False ''Username already taken'', [])"
    if "u \<in> set (users s)" "username u = uname" "socketId u = c" for u
  proof -
    from d that have "find (\<lambda>v. username v = uname) (users s) = Some u"
      using find_distinct_username by blast
    with that show ?thesis
      by (simp add: handleRegister_def)
  qed
  from fresh other same show ?thesis
    unfolding s_def by blast
qed

theorem register_decision_rule_witness:
  "(\<not> (\<exists>u \<in> set (users (run [(''c1'', Register ''i1'' ''alice'')] init)). username u = ''bob'')
    \<and> handleRegister ''i2'' ''bob'' ''c1'' (run [(''c1'', Register ''i1'' ''alice'')] init) =
        (\<lparr>users = [\<lparr>id_user = ''i1'', username = ''alice'', socketId = ''c1''\<rparr>,
                   \<lparr>id_user = ''i2'', username = ''bob'', socketId = ''c1''\<rparr>], groups = []\<rparr>,
         Ack True ''Registered successfully'', []))
   \<and> ((\<exists>u \<in> set (users (run [(''c1'', Register ''i1'' ''alice'')] init)).
          username u = ''alice'' \<and> socketId u \<noteq> ''c2'')
    \<and> handleRegister ''i2'' ''alice'' ''c2'' (run [(''c1'', Register ''i1'' ''alice'')] init) =
        (\<lparr>users = [\<lparr>id_user = ''i1'', username = ''alice'', socketId = ''c2''\<rparr>], groups = []\<rparr>,
         Ack True ''Reconnected successfully'', []))
   \<and> ((\<exists>u \<in> set (users (run [(''c1'', Register ''i1'' ''alice'')] init)).
          username u = ''alice'' \<and> socketId u = ''c1'')
    \<and> handleRegister ''i2'' ''alice'' ''c1'' (run [(''c1'', Register ''i1'' ''alice'')] init) =
        (\<lparr>users = [\<lparr>id_user = ''i1'', username = ''alice'', socketId = ''c1''\<rparr>], groups = []\<rparr>,
         Ack False ''Username already taken'', []))"
  using register_decision_rule
      [where es = "[(''c1'', Register ''i1'' ''alice'')]" and uname = "''bob''"
         and newId = "''i2''" and c = "''c1''"]
    register_decision_rule
      [where es = "[(''c1'', Register ''i1'' ''alice'')]" and uname = "''alice''"
         and newId = "''i2''" and c = "''c2''"]
    register_decision_rule
      [where es = "[(''c1'', Register ''i1'' ''alice'')]" and uname = "''alice''"
         and newId = "''i2''" and c = "''c1''"]
  by (simp add: init_def handleRegister_def)

text \<open>
  C2, as far as it holds. In every state reached from the empty state by any sequence
  of events, no two sessions have the same user name.
\<close>

theorem one_session_per_username:
  "distinct (map username (users (run es init)))"
  using init_users_distinct by (rule run_users_distinct)

theorem one_session_per_username_witness:
  "distinct (map username (users (run [(''c1'', Register ''i1'' ''alice''),
                                       (''c2'', Register ''i2'' ''alice''),
                                       (''c2'', Register ''i3'' ''bob'')] init)))
   \<and> map username (users (run [(''c1'', Register ''i1'' ''alice''),
                               (''c2'', Register ''i2'' ''alice''),
                               (''c2'', Register ''i3'' ''bob'')] init)) = [''alice'', ''bob'']"
  using one_session_per_username
    [of "[(''c1'', Register ''i1'' ''alice''), (''c2'', Register ''i2'' ''alice''),
          (''c2'', Register ''i3'' ''bob'')]"]
  by (simp add: init_def handleRegister_def)

text \<open>
  The other half of C2, one session per connection, fails: \<open>handleRegister\<close> looks
  sessions up by name only, so a connection that registers a second name owns two
  sessions.
\<close>

theorem one_session_per_connection_counterexample:
  "\<not> (distinct (map username (users (run [(''c1'', Register ''i1'' ''alice''),
                                          (''c1'', Register ''i2'' ''bob'')] init)))
      \<and> distinct (map socketId (users (run [(''c1'', Register ''i1'' ''alice''),
                                            (''c1'', Register ''i2'' ''bob'')] init))))"
  by (simp add: init_def handleRegister_def)

section \<open>Disconnection\<close>

text \<open>
  C3. After \<open>handleDisconnect c\<close> no session with the socket identifier \<open>c\<close> should be left,
  and the display name of a session that \<open>c\<close> owned should be in no group's member list.
  The code takes every session of \<open>c\<close> out of the users array, but it takes out of the
  groups only the name of the one session that \<^verbatim>\<open>find\<close> returned, the first. Alice
  registers on \<open>c1\<close>, Bob on \<open>c2\<close>; Bob joins \<open>g\<close> and then registers his name again on
  \<open>c1\<close>, which moves his session to \<open>c1\<close>. When \<open>c1\<close> closes, both sessions go and Bob
  stays a member of \<open>g\<close>.
\<close>

theorem disconnect_cascade_failing_input:
  "\<lparr>id_user = ''i2'', username = ''bob'', socketId = ''c1''\<rparr>
     \<in> set (users (run [(''c1'', Register ''i1'' ''alice''), (''c2'', Register ''i2'' ''bob''),
                        (''c2'', JoinGroup ''t1'' ''g''), (''c1'', Register ''i3'' ''bob'')] init))
   \<and> handleDisconnect ''c1''
       (run [(''c1'', Register ''i1'' ''alice''), (''c2'', Register ''i2'' ''bob''),
             (''c2'', JoinGroup ''t1'' ''g''), (''c1'', Register ''i3'' ''bob'')] init)
     = \<lparr>users = [], groups = [\<lparr>name = ''g'', members = [''bob'']\<rparr>]\<rparr>
   \<and> \<not> list_all (\<lambda>g. ''bob'' \<notin> set (members g))
       (groups (handleDisconnect ''c1''
         (run [(''c1'', Register ''i1'' ''alice''), (''c2'', Register ''i2'' ''bob''),
               (''c2'', JoinGroup ''t1'' ''g''), (''c1'', Register ''i3'' ''bob'')] init)))"
  by (simp add: init_def handleRegister_def handleJoinGroup_def handleDisconnect_def Let_def)

text \<open>
  What does hold in every state: the session that \<^verbatim>\<open>find\<close> returns is cascaded, and so the
  cascade is complete whenever all sessions of the connection carry one name, as they do
  when socket identifiers are pairwise different.
\<close>

lemma disconnect_cascade_found:
  assumes "find (\<lambda>u. socketId u = c) (users s) = Some usr"
  shows "(\<forall>u \<in> set (users (handleDisconnect c s)). socketId u \<noteq> c)
       \<and> find (\<lambda>u. socketId u = c) (users (handleDisconnect c s)) = None
       \<and> (\<forall>g \<in> set (groups (handleDisconnect c s)). username usr \<notin> set (members g))"
proof -
  from assms have us: "users (handleDisconnect c s) = filter (\<lambda>u. socketId u \<noteq> c) (users s)"
    and gs: "groups (handleDisconnect c s) =
             map (\<lambda>g. g\<lparr>members := filter (\<lambda>m. m \<noteq> username usr) (members g)\<rparr>) (groups s)"
    by (simp_all add: handleDisconnect_def)
  from us have a: "\<forall>u \<in> set (users (handleDisconnect c s)). socketId u \<noteq> c"
    by simp
  then have b: "find (\<lambda>u. socketId u = c) (users (handleDisconnect c s)) = None"
    by (simp add: find_None_iff)
  from gs have "\<forall>g \<in> set (groups (handleDisconnect c s)). username usr \<notin> set (members g)"
    by auto
  with a b show ?thesis by blast
qed

lemma disconnect_cascade_one_name:
  assumes "\<exists>x \<in> set (users s). socketId x = c \<and> username x = u"
    and "\<forall>x \<in> set (users s). socketId x = c \<longrightarrow> username x = u"
  shows "(\<forall>x \<in> set (users (handleDisconnect c s)). socketId x \<noteq> c)
       \<and> find (\<lambda>x. socketId x = c) (users (handleDisconnect c s)) = None
       \<and> (\<forall>g \<in> set (groups (handleDisconnect c s)). u \<notin> set (members g))"
proof -
  from assms(1) have "\<exists>x \<in> set (users s). socketId x = c" by blast
  then obtain usr where f: "find (\<lambda>x. socketId x = c) (users s) = Some usr"
    using find_exists_Some [of "users s" "\<lambda>x. socketId x = c"] by blast
  from find_Some_holds [OF f] assms(2) have "username usr = u" by blast
  with disconnect_cascade_found [OF f] show ?thesis by simp
qed

text \<open>
  C10. When no user has the socket identifier \<open>c\<close>, \<open>handleDisconnect c\<close> leaves the
  whole state as it was: the users array and every group, with its member list.
\<close>

theorem disconnect_without_session_unchanged:
  assumes "\<forall>u \<in> set (users s). socketId u \<noteq> c"
  shows "handleDisconnect c s = s"
proof -
  from assms have "find (\<lambda>u. socketId u = c) (users s) = None"
    by (simp add: find_None_iff)
  then show ?thesis
    by (simp add: handleDisconnect_def)
qed

theorem disconnect_without_session_unchanged_witness:
  "\<not> (\<exists>u \<in> set (users \<lparr>users = [\<lparr>id_user = ''i1'', username = ''alice'', socketId = ''c1''\<rparr>],
                           groups = [\<lparr>name = ''g'', members = [''alice'']\<rparr>]\<rparr>). socketId u = ''c2'')
   \<and> handleDisconnect ''c2'' \<lparr>users = [\<lparr>id_user = ''i1'', username = ''alice'', socketId = ''c1''\<rparr>],
                              groups = [\<lparr>name = ''g'', members = [''alice'']\<rparr>]\<rparr>
     = \<lparr>users = [\<lparr>id_user = ''i1'', username = ''alice'', socketId = ''c1''\<rparr>],
        groups = [\<lparr>name = ''g'', members = [''alice'']\<rparr>]\<rparr>"
  using disconnect_without_session_unchanged
    [of "\<lparr>users = [\<lparr>id_user = ''i1'', username = ''alice'', socketId = ''c1''\<rparr>],
          groups = [\<lparr>name = ''g'', members = [''alice'']\<rparr>]\<rparr>" "''c2''"]
  by simp

section \<open>Private messages\<close>

text \<open>
  C4, for the sessions that \<open>handlePrivateMessage\<close> finds. When the first session with the
  caller's socket identifier is \<open>sender\<close> and the first session named \<open>to\<close> is
  \<open>recipient\<close>, the handler leaves the state as it is, acknowledges success and makes
  exactly one transport call: a \<^verbatim>\<open>privateMessage\<close> addressed to the socket identifier of
  \<open>recipient\<close>, carrying the name of \<open>sender\<close>, the message and the time stamp.
\<close>

theorem private_message_routing:
  assumes "find (\<lambda>u. socketId u = c) (users s) = Some sender"
    and "find (\<lambda>u. username u = to) (users s) = Some recipient"
  shows "handlePrivateMessage ts to message c s =
           (s, Ack True ''Message sent'',
            [Emit (socketId recipient) ''privateMessage''
               (PrivatePayload (username sender) message ts)])"
  using assms by (simp add: handlePrivateMessage_def)

theorem private_message_routing_witness:
  "find (\<lambda>u. socketId u = ''c1'')
     (users (run [(''c1'', Register ''i1'' ''alice''), (''c2'', Register ''i2'' ''bob'')] init))
     = Some \<lparr>id_user = ''i1'', username = ''alice'', socketId = ''c1''\<rparr>
   \<and> find (\<lambda>u. username u = ''bob'')
     (users (run [(''c1'', Register ''i1'' ''alice''), (''c2'', Register ''i2'' ''bob'')] init))
     = Some \<lparr>id_user = ''i2'', username = ''bob'', socketId = ''c2''\<rparr>
   \<and> snd (handlePrivateMessage ''t'' ''bob'' ''hi'' ''c1''
       (run [(''c1'', Register ''i1'' ''alice''), (''c2'', Register ''i2'' ''bob'')] init))
     = (Ack True ''Message sent'',
        [Emit ''c2'' ''privateMessage'' (PrivatePayload ''alice'' ''hi'' ''t'')])"
proof -
  have h1: "find (\<lambda>u. socketId u = ''c1'')
     (users (run [(''c1'', Register ''i1'' ''alice''), (''c2'', Register ''i2'' ''bob'')] init))
     = Some \<lparr>id_user = ''i1'', username = ''alice'', socketId = ''c1''\<rparr>"
    by (simp add: init_def handleRegister_def)
  have h2: "find (\<lambda>u. username u = ''bob'')
     (users (run [(''c1'', Register ''i1'' ''alice''), (''c2'', Register ''i2'' ''bob'')] init))
     = Some \<lparr>id_user = ''i2'', username = ''bob'', socketId = ''c2''\<rparr>"
    by (simp add: init_def handleRegister_def)
  show ?thesis
    using h1 h2 private_message_routing [OF h1 h2, of "''t''" "''hi''"]
    by simp
qed

text \<open>
  A connection that owns two sessions sends under the name of the first one only:
  \<open>c1\<close> has registered Alice and then Bob, and its message to Carol says it is from Alice.
\<close>

theorem private_message_sender_counterexample:
  "\<lparr>id_user = ''i2'', username = ''bob'', socketId = ''c1''\<rparr>
     \<in> set (users (run [(''c1'', Register ''i1'' ''alice''), (''c1'', Register ''i2'' ''bob''),
                        (''c2'', Register ''i3'' ''carol'')] init))
   \<and> \<lparr>id_user = ''i3'', username = ''carol'', socketId = ''c2''\<rparr>
     \<in> set (users (run [(''c1'', Register ''i1'' ''alice''), (''c1'', Register ''i2'' ''bob''),
                        (''c2'', Register ''i3'' ''carol'')] init))
   \<and> snd (handlePrivateMessage ''t'' ''carol'' ''hi'' ''c1''
       (run [(''c1'', Register ''i1'' ''alice''), (''c1'', Register ''i2'' ''bob''),
             (''c2'', Register ''i3'' ''carol'')] init))
     = (Ack True ''Message sent'',
        [Emit ''c2'' ''privateMessage'' (PrivatePayload ''alice'' ''hi'' ''t'')])
   \<and> snd (handlePrivateMessage ''t'' ''carol'' ''hi'' ''c1''
       (run [(''c1'', Register ''i1'' ''alice''), (''c1'', Register ''i2'' ''bob''),
             (''c2'', Register ''i3'' ''carol'')] init))
     \<noteq> (Ack True ''Message sent'',
        [Emit ''c2'' ''privateMessage'' (PrivatePayload ''bob'' ''hi'' ''t'')])"
  by (simp add: init_def handleRegister_def handlePrivateMessage_def)

section \<open>Groups\<close>

text \<open>
  C5. \<open>handleGroupMessage\<close> fails with ``You are not registered'' when the caller has no
  session, with ``Group not found'' when the caller has one and no group has the name,
  and with ``You are not a member of this group'' when the name of the caller's session
  is not in the member list of the group. Otherwise it publishes the group, the
  caller's name, the message and the time stamp on the channel of the group and
  acknowledges success. Success, and a transport call of any kind, happen only when
  the caller is registered, the group exists and the caller is a member. The state is
  the same in all four cases.
\<close>

theorem group_message_gate:
  "(\<not> (\<exists>u \<in> set (users s). socketId u = c) \<longrightarrow>
      handleGroupMessage ts gname message c s = (s, Ack False ''You are not registered'', []))
   \<and> (\<forall>sender. find (\<lambda>u. socketId u = c) (users s) = Some sender \<longrightarrow>
        (\<not> (\<exists>g \<in> set (groups s). name g = gname) \<longrightarrow>
           handleGroupMessage ts gname message c s = (s, Ack False ''Group not found'', []))
      \<and> (\<forall>grp. find (\<lambda>g. name g = gname) (groups s) = Some grp \<longrightarrow>
           (username sender \<notin> set (members grp) \<longrightarrow>
              handleGroupMessage ts gname message c s =
                (s, Ack False ''You are not a member of this group'', []))
         \<and> (username sender \<in> set (members grp) \<longrightarrow>
              handleGroupMessage ts gname message c s =
                (s, Ack True ''Group message sent'',
                 [Emit (room gname) ''groupMessage''
                    (GroupPayload gname (username sender) message ts)]))))
   \<and> ((\<exists>m. fst (snd (handleGroupMessage ts gname message c s)) = Ack True m)
        \<longleftrightarrow> (\<exists>sender grp. find (\<lambda>u. socketId u = c) (users s) = Some sender
                \<and> find (\<lambda>g. name g = gname) (groups s) = Some grp
                \<and> username sender \<in> set (members grp)))
   \<and> (snd (snd (handleGroupMessage ts gname message c s)) \<noteq> []
        \<longleftrightarrow> (\<exists>sender grp. find (\<lambda>u. socketId u = c) (users s) = Some sender
                \<and> find (\<lambda>g. name g = gname) (groups s) = Some grp
                \<and> username sender \<in> set (members grp)))"
proof -
  have a: "\<not> (\<exists>u \<in> set (users s). socketId u = c) \<longrightarrow>
      handleGroupMessage ts gname message c s = (s, Ack False ''You are not registered'', [])"
  proof
    assume "\<not> (\<exists>u \<in> set (users s). socketId u = c)"
    then have "find (\<lambda>u. socketId u = c) (users s) = None"
      by (simp add: find_None_iff)
    then show "handleGroupMessage ts gname message c s = (s, Ack False ''You are not registered'', [])"
      by (simp add: handleGroupMessage_def)
  qed
  have b: "\<forall>sender. find (\<lambda>u. socketId u = c) (users s) = Some sender \<longrightarrow>
        (\<not> (\<exists>g \<in> set (groups s). name g = gname) \<longrightarrow>
           handleGroupMessage ts gname message c s = (s, Ack False ''Group not found'', []))
      \<and> (\<forall>grp. find (\<lambda>g. name g = gname) (groups s) = Some grp \<longrightarrow>
           (username sender \<notin> set (members grp) \<longrightarrow>
              handleGroupMessage ts gname message c s =
                (s, Ack False ''You are not a member of this group'', []))
         \<and> (username sender \<in> set (members grp) \<longrightarrow>
              handleGroupMessage ts gname message c s =
                (s, Ack True ''Group message sent'',
                 [Emit (room gname) ''groupMessage''
                    (GroupPayload gname (username sender) message ts)])))"
  proof (intro allI impI conjI)
    fix sender
    assume f: "find (\<lambda>u. socketId u = c) (users s) = Some sender"
    assume "\<not> (\<exists>g \<in> set (groups s). name g = gname)"
    then have "find (\<lambda>g. name g = gname) (groups s) = None"
      by (simp add: find_None_iff)
    with f show "handleGroupMessage ts gname message c s = (s, Ack False ''Group not found'', [])"
      by (simp add: handleGroupMessage_def)
  next
    fix sender grp
    assume "find (\<lambda>u. socketId u = c) (users s) = Some sender"
      "find (\<lambda>g. name g = gname) (groups s) = Some grp"
      "username sender \<notin> set (members grp)"
    then show "handleGroupMessage ts gname message c s =
                (s, Ack False ''You are not a member of this group'', [])"
      by (simp add: handleGroupMessage_def)
  next
    fix sender grp
    assume "find (\<lambda>u. socketId u = c) (users s) = Some sender"
      "find (\<lambda>g. name g = gname) (groups s) = Some grp"
      "username sender \<in> set (members grp)"
    then show "handleGroupMessage ts gname message c s =
                (s, Ack True ''Group message sent'',
                 [Emit (room gname) ''groupMessage''
                    (GroupPayload gname (username sender) message ts)])"
      by (simp add: handleGroupMessage_def)
  qed
  have c: "(\<exists>m. fst (snd (handleGroupMessage ts gname message c s)) = Ack True m)
        \<longleftrightarrow> (\<exists>sender grp. find (\<lambda>u. socketId u = c) (users s) = Some sender
                \<and> find (\<lambda>g. name g = gname) (groups s) = Some grp
                \<and> username sender \<in> set (members grp))"
    by (auto simp: handleGroupMessage_def split: option.splits)
  have d: "snd (snd (handleGroupMessage ts gname message c s)) \<noteq> []
        \<longleftrightarrow> (\<exists>sender grp. find (\<lambda>u. socketId u = c) (users s) = Some sender
                \<and> find (\<lambda>g. name g = gname) (groups s) = Some grp
                \<and> username sender \<in> set (members grp))"
    by (auto simp: handleGroupMessage_def split: option.splits)
  from a b c d show ?thesis by blast
qed

theorem group_message_gate_witness:
  "find (\<lambda>u. socketId u = ''c2'')
     (users \<lparr>users = [\<lparr>id_user = ''i1'', username = ''alice'', socketId = ''c1''\<rparr>,
                      \<lparr>id_user = ''i2'', username = ''bob'', socketId = ''c2''\<rparr>],
             groups = [\<lparr>name = ''g'', members = [''alice'']\<rparr>]\<rparr>)
     = Some \<lparr>id_user = ''i2'', username = ''bob'', socketId = ''c2''\<rparr>
   \<and> handleGroupMessage ''t'' ''g'' ''hi'' ''c2''
       \<lparr>users = [\<lparr>id_user = ''i1'', username = ''alice'', socketId = ''c1''\<rparr>,
                 \<lparr>id_user = ''i2'', username = ''bob'', socketId = ''c2''\<rparr>],
        groups = [\<lparr>name = ''g'', members = [''alice'']\<rparr>]\<rparr>
     = (\<lparr>users = [\<lparr>id_user = ''i1'', username = ''alice'', socketId = ''c1''\<rparr>,
                  \<lparr>id_user = ''i2'', username = ''bob'', socketId = ''c2''\<rparr>],
         groups = [\<lparr>name = ''g'', members = [''alice'']\<rparr>]\<rparr>,
        Ack False ''You are not a member of this group'', [])
   \<and> handleGroupMessage ''t'' ''g'' ''hi'' ''c1''
       \<lparr>users = [\<lparr>id_user = ''i1'', username = ''alice'', socketId = ''c1''\<rparr>,
                 \<lparr>id_user = ''i2'', username = ''bob'', socketId = ''c2''\<rparr>],
        groups = [\<lparr>name = ''g'', members = [''alice'']\<rparr>]\<rparr>
     = (\<lparr>users = [\<lparr>id_user = ''i1'', username = ''alice'', socketId = ''c1''\<rparr>,
                  \<lparr>id_user = ''i2'', username = ''bob'', socketId = ''c2''\<rparr>],
         groups = [\<lparr>name = ''g'', members = [''alice'']\<rparr>]\<rparr>,
        Ack True ''Group message sent'',
        [Emit ''group:g'' ''groupMessage'' (GroupPayload ''g'' ''alice'' ''hi'' ''t'')])
   \<and> handleGroupMessage ''t'' ''h'' ''hi'' ''c1''
       \<lparr>users = [\<lparr>id_user = ''i1'', username = ''alice'', socketId = ''c1''\<rparr>,
                 \<lparr>id_user = ''i2'', username = ''bob'', socketId = ''c2''\<rparr>],
        groups = [\<lparr>name = ''g'', members = [''alice'']\<rparr>]\<rparr>
     = (\<lparr>users = [\<lparr>id_user = ''i1'', username = ''alice'', socketId = ''c1''\<rparr>,
                  \<lparr>id_user = ''i2'', username = ''bob'', socketId = ''c2''\<rparr>],
         groups = [\<lparr>name = ''g'', members = [''alice'']\<rparr>]\<rparr>,
        Ack False ''Group not found'', [])
   \<and> handleGroupMessage ''t'' ''g'' ''hi'' ''c3''
       \<lparr>users = [\<lparr>id_user = ''i1'', username = ''alice'', socketId = ''c1''\<rparr>,
                 \<lparr>id_user = ''i2'', username = ''bob'', socketId = ''c2''\<rparr>],
        groups = [\<lparr>name = ''g'', members = [''alice'']\<rparr>]\<rparr>
     = (\<lparr>users = [\<lparr>id_user = ''i1'', username = ''alice'', socketId = ''c1''\<rparr>,
                  \<lparr>id_user = ''i2'', username = ''bob'', socketId = ''c2''\<rparr>],
         groups = [\<lparr>name = ''g'', members = [''alice'']\<rparr>]\<rparr>,
        Ack False ''You are not registered'', [])"
  using
    group_message_gate
      [where s = "\<lparr>users = [\<lparr>id_user = ''i1'', username = ''alice'', socketId = ''c1''\<rparr>,
                            \<lparr>id_user = ''i2'', username = ''bob'', socketId = ''c2''\<rparr>],
                   groups = [\<lparr>name = ''g'', members = [''alice'']\<rparr>]\<rparr>"
         and c = "''c2''" and gname = "''g''" and ts = "''t''" and message = "''hi''"]
    group_message_gate
      [where s = "\<lparr>users = [\<lparr>id_user = ''i1'', username = ''alice'', socketId = ''c1''\<rparr>,
                            \<lparr>id_user = ''i2'', username = ''bob'', socketId = ''c2''\<rparr>],
                   groups = [\<lparr>name = ''g'', members = [''alice'']\<rparr>]\<rparr>"
         and c = "''c1''" and gname = "''g''" and ts = "''t''" and message = "''hi''"]
    group_message_gate
      [where s = "\<lparr>users = [\<lparr>id_user = ''i1'', username = ''alice'', socketId = ''c1''\<rparr>,
                            \<lparr>id_user = ''i2'', username = ''bob'', socketId = ''c2''\<rparr>],
                   groups = [\<lparr>name = ''g'', members = [''alice'']\<rparr>]\<rparr>"
         and c = "''c1''" and gname = "''h''" and ts = "''t''" and message = "''hi''"]
    group_message_gate
      [where s = "\<lparr>users = [\<lparr>id_user = ''i1'', username = ''alice'', socketId = ''c1''\<rparr>,
                            \<lparr>id_user = ''i2'', username = ''bob'', socketId = ''c2''\<rparr>],
                   groups = [\<lparr>name = ''g'', members = [''alice'']\<rparr>]\<rparr>"
         and c = "''c3''" and gname = "''g''" and ts = "''t''" and message = "''hi''"]
  by (simp add: room_def)

text \<open>
  C6. For a registered caller, in any state, joining the same group a second time gives
  the state, the acknowledgment with its member list and the answer of \<open>handleGetGroups\<close>
  that the first join gave. In every reachable state no member list contains a name
  twice.
\<close>

theorem join_group_idempotent:
  "((\<exists>u \<in> set (users s). socketId u = c) \<longrightarrow>
      fst (handleJoinGroup ts' gname c (fst (handleJoinGroup ts gname c s)))
        = fst (handleJoinGroup ts gname c s)
    \<and> fst (snd (handleJoinGroup ts' gname c (fst (handleJoinGroup ts gname c s))))
        = fst (snd (handleJoinGroup ts gname c s))
    \<and> fst (snd (handleGetGroups (fst (handleJoinGroup ts' gname c (fst (handleJoinGroup ts gname c s))))))
        = fst (snd (handleGetGroups (fst (handleJoinGroup ts gname c s)))))
   \<and> (\<forall>g \<in> set (groups (run es init)). distinct (members g))"
proof -
  have twice: "fst (handleJoinGroup ts' gname c (fst (handleJoinGroup ts gname c s)))
        = fst (handleJoinGroup ts gname c s)
    \<and> fst (snd (handleJoinGroup ts' gname c (fst (handleJoinGroup ts gname c s))))
        = fst (snd (handleJoinGroup ts gname c s))"
    if "\<exists>u \<in> set (users s). socketId u = c"
  proof -
    from that obtain usr where u: "find (\<lambda>u. socketId u = c) (users s) = Some usr"
      by (cases "find (\<lambda>u. socketId u = c) (users s)") (auto simp: find_None_iff)
    define s1 where "s1 = fst (handleJoinGroup ts gname c s)"
    from join_makes_member [OF u, of gname ts] obtain grp
      where g: "find (\<lambda>g. name g = gname) (groups s1) = Some grp"
        and m: "username usr \<in> set (members grp)"
        and r: "fst (snd (handleJoinGroup ts gname c s)) =
                  AckMembers True ''Joined group successfully'' (members grp)"
      unfolding s1_def by blast
    have u1: "find (\<lambda>u. socketId u = c) (users s1) = Some usr"
      unfolding s1_def using u by (simp add: join_keeps_users)
    from join_when_member [OF u1 g m, of ts'] r show ?thesis
      unfolding s1_def by simp
  qed
  have "\<forall>g \<in> set (groups init). distinct (members g)"
    by (simp add: init_def)
  then have "\<forall>g \<in> set (groups (run es init)). distinct (members g)"
    by (rule run_members_distinct)
  with twice show ?thesis by simp
qed

theorem join_group_idempotent_witness:
  "(\<exists>u \<in> set (users \<lparr>users = [\<lparr>id_user = ''i1'', username = ''alice'', socketId = ''c1''\<rparr>],
                        groups = []\<rparr>). socketId u = ''c1'')
   \<and> fst (handleJoinGroup ''t1'' ''g'' ''c1''
         \<lparr>users = [\<lparr>id_user = ''i1'', username = ''alice'', socketId = ''c1''\<rparr>], groups = []\<rparr>)
     = \<lparr>users = [\<lparr>id_user = ''i1'', username = ''alice'', socketId = ''c1''\<rparr>],
        groups = [\<lparr>name = ''g'', members = [''alice'']\<rparr>]\<rparr>
   \<and> fst (handleJoinGroup ''t2'' ''g'' ''c1'' (fst (handleJoinGroup ''t1'' ''g'' ''c1''
         \<lparr>users = [\<lparr>id_user = ''i1'', username = ''alice'', socketId = ''c1''\<rparr>], groups = []\<rparr>)))
     = \<lparr>users = [\<lparr>id_user = ''i1'', username = ''alice'', socketId = ''c1''\<rparr>],
        groups = [\<lparr>name = ''g'', members = [''alice'']\<rparr>]\<rparr>
   \<and> groups (run [(''c1'', Register ''i1'' ''alice''), (''c1'', JoinGroup ''t1'' ''g''),
                   (''c1'', JoinGroup ''t2'' ''g'')] init)
     = [\<lparr>name = ''g'', members = [''alice'']\<rparr>]
   \<and> list_all (\<lambda>g. distinct (members g))
       (groups (run [(''c1'', Register ''i1'' ''alice''), (''c1'', JoinGroup ''t1'' ''g''),
                     (''c1'', JoinGroup ''t2'' ''g'')] init))"
proof -
  have a: "fst (handleJoinGroup ''t1'' ''g'' ''c1''
         \<lparr>users = [\<lparr>id_user = ''i1'', username = ''alice'', socketId = ''c1''\<rparr>], groups = []\<rparr>)
     = \<lparr>users = [\<lparr>id_user = ''i1'', username = ''alice'', socketId = ''c1''\<rparr>],
        groups = [\<lparr>name = ''g'', members = [''alice'']\<rparr>]\<rparr>"
    by (simp add: handleJoinGroup_def Let_def)
  have b: "groups (run [(''c1'', Register ''i1'' ''alice''), (''c1'', JoinGroup ''t1'' ''g''),
                   (''c1'', JoinGroup ''t2'' ''g'')] init)
     = [\<lparr>name = ''g'', members = [''alice'']\<rparr>]"
    by (simp add: init_def handleRegister_def handleJoinGroup_def Let_def)
  show ?thesis
    using a b join_group_idempotent
      [where s = "\<lparr>users = [\<lparr>id_user = ''i1'', username = ''alice'', socketId = ''c1''\<rparr>],
                   groups = []\<rparr>"
         and c = "''c1''" and gname = "''g''" and ts = "''t1''" and ts' = "''t2''"
         and es = "[(''c1'', Register ''i1'' ''alice''), (''c1'', JoinGroup ''t1'' ''g''),
                   (''c1'', JoinGroup ''t2'' ''g'')]"]
    by simp
qed

text \<open>
  C7. For a registered caller, whose session \<open>handleLeaveGroup\<close> finds as \<open>usr\<close>, the
  answer is the failure ``Group not found'' exactly when no group has the name. When a
  group has it, the answer is a success, the group found under that name has afterwards
  the member list it had without the name of \<open>usr\<close>, and when that name was not in the
  list the whole state is unchanged.
\<close>

theorem leave_group_rule:
  assumes "find (\<lambda>u. socketId u = c) (users s) = Some usr"
  shows "(fst (snd (handleLeaveGroup ts gname c s)) = Ack False ''Group not found''
            \<longleftrightarrow> \<not> (\<exists>g \<in> set (groups s). name g = gname))
       \<and> ((\<exists>g \<in> set (groups s). name g = gname) \<longrightarrow>
            fst (snd (handleLeaveGroup ts gname c s)) = Ack True ''Left group successfully'')
       \<and> (\<forall>grp. find (\<lambda>g. name g = gname) (groups s) = Some grp \<longrightarrow>
            find (\<lambda>g. name g = gname) (groups (fst (handleLeaveGroup ts gname c s)))
              = Some (grp\<lparr>members := filter (\<lambda>m. m \<noteq> username usr) (members grp)\<rparr>)
          \<and> (username usr \<notin> set (members grp) \<longrightarrow> fst (handleLeaveGroup ts gname c s) = s))"
proof -
  have none: "fst (snd (handleLeaveGroup ts gname c s)) = Ack False ''Group not found''"
    if "\<not> (\<exists>g \<in> set (groups s). name g = gname)"
  proof -
    from that have "find (\<lambda>g. name g = gname) (groups s) = None"
      by (simp add: find_None_iff)
    with assms show ?thesis by (simp add: handleLeaveGroup_def)
  qed
  have some: "fst (snd (handleLeaveGroup ts gname c s)) = Ack True ''Left group successfully''"
    if "\<exists>g \<in> set (groups s). name g = gname"
  proof -
    from that obtain grp where "find (\<lambda>g. name g = gname) (groups s) = Some grp"
      using find_exists_Some [of "groups s" "\<lambda>g. name g = gname"] by blast
    with assms show ?thesis by (simp add: handleLeaveGroup_def)
  qed
  have removed: "find (\<lambda>g. name g = gname) (groups (fst (handleLeaveGroup ts gname c s)))
              = Some (grp\<lparr>members := filter (\<lambda>m. m \<noteq> username usr) (members grp)\<rparr>)"
    if g: "find (\<lambda>g. name g = gname) (groups s) = Some grp" for grp
  proof -
    from find_Some_holds [OF g] have n: "name grp = gname" by simp
    have "find (\<lambda>g. name g = gname)
            (update_first (\<lambda>g. name g = gname)
               (\<lambda>g. g\<lparr>members := filter (\<lambda>m. m \<noteq> username usr) (members grp)\<rparr>) (groups s))
          = Some (grp\<lparr>members := filter (\<lambda>m. m \<noteq> username usr) (members grp)\<rparr>)"
      using g by (rule update_first_find) (simp add: n)
    with assms g show ?thesis by (simp add: handleLeaveGroup_def)
  qed
  have frame: "fst (handleLeaveGroup ts gname c s) = s"
    if g: "find (\<lambda>g. name g = gname) (groups s) = Some grp"
      and m: "username usr \<notin> set (members grp)" for grp
  proof -
    from m have "filter (\<lambda>m. m \<noteq> username usr) (members grp) = members grp"
      by (simp add: filter_id_conv) blast
    then have "update_first (\<lambda>g. name g = gname)
               (\<lambda>g. g\<lparr>members := filter (\<lambda>m. m \<noteq> username usr) (members grp)\<rparr>) (groups s)
          = groups s"
      using update_first_id [OF g] by simp
    with assms g show ?thesis by (simp add: handleLeaveGroup_def)
  qed
  have iff: "fst (snd (handleLeaveGroup ts gname c s)) = Ack False ''Group not found''
            \<longleftrightarrow> \<not> (\<exists>g \<in> set (groups s). name g = gname)"
    using none some by (cases "\<exists>g \<in> set (groups s). name g = gname") simp_all
  from iff some removed frame show ?thesis by blast
qed

theorem leave_group_rule_witness:
  "find (\<lambda>u. socketId u = ''c2'')
     (users \<lparr>users = [\<lparr>id_user = ''i1'', username = ''alice'', socketId = ''c1''\<rparr>,
                      \<lparr>id_user = ''i2'', username = ''bob'', socketId = ''c2''\<rparr>],
             groups = [\<lparr>name = ''g'', members = [''alice'']\<rparr>]\<rparr>)
     = Some \<lparr>id_user = ''i2'', username = ''bob'', socketId = ''c2''\<rparr>
   \<and> fst (snd (handleLeaveGroup ''t'' ''h'' ''c2''
       \<lparr>users = [\<lparr>id_user = ''i1'', username = ''alice'', socketId = ''c1''\<rparr>,
                 \<lparr>id_user = ''i2'', username = ''bob'', socketId = ''c2''\<rparr>],
        groups = [\<lparr>name = ''g'', members = [''alice'']\<rparr>]\<rparr>))
     = Ack False ''Group not found''
   \<and> fst (snd (handleLeaveGroup ''t'' ''g'' ''c2''
       \<lparr>users = [\<lparr>id_user = ''i1'', username = ''alice'', socketId = ''c1''\<rparr>,
                 \<lparr>id_user = ''i2'', username = ''bob'', socketId = ''c2''\<rparr>],
        groups = [\<lparr>name = ''g'', members = [''alice'']\<rparr>]\<rparr>))
     = Ack True ''Left group successfully''
   \<and> fst (handleLeaveGroup ''t'' ''g'' ''c2''
       \<lparr>users = [\<lparr>id_user = ''i1'', username = ''alice'', socketId = ''c1''\<rparr>,
                 \<lparr>id_user = ''i2'', username = ''bob'', socketId = ''c2''\<rparr>],
        groups = [\<lparr>name = ''g'', members = [''alice'']\<rparr>]\<rparr>)
     = \<lparr>users = [\<lparr>id_user = ''i1'', username = ''alice'', socketId = ''c1''\<rparr>,
                 \<lparr>id_user = ''i2'', username = ''bob'', socketId = ''c2''\<rparr>],
        groups = [\<lparr>name = ''g'', members = [''alice'']\<rparr>]\<rparr>"
proof -
  have h: "find (\<lambda>u. socketId u = ''c2'')
     (users \<lparr>users = [\<lparr>id_user = ''i1'', username = ''alice'', socketId = ''c1''\<rparr>,
                      \<lparr>id_user = ''i2'', username = ''bob'', socketId = ''c2''\<rparr>],
             groups = [\<lparr>name = ''g'', members = [''alice'']\<rparr>]\<rparr>)
     = Some \<lparr>id_user = ''i2'', username = ''bob'', socketId = ''c2''\<rparr>"
    by simp
  show ?thesis
    using h leave_group_rule [OF h, of "''t''" "''h''"] leave_group_rule [OF h, of "''t''" "''g''"]
    by simp
qed

section \<open>Acknowledgments and failures\<close>




section \<open>Groups persist\<close>

text \<open>
  C9. A group name that is in the registry stays there through every sequence of events.
  In particular, after a registered caller's \<open>handleJoinGroup\<close> and any events that
  follow, a group with that name exists and \<open>handleGetGroups\<close> lists it with some member
  count, also when its last member has left or disconnected.
\<close>

theorem groups_never_removed:
  "((\<exists>g \<in> set (groups s). name g = gname) \<longrightarrow>
      (\<exists>g \<in> set (groups (run es s)). name g = gname))
   \<and> ((\<exists>u \<in> set (users s). socketId u = c) \<longrightarrow>
      (\<exists>g \<in> set (groups (run es (fst (handleJoinGroup ts gname c s)))). name g = gname)
      \<and> (\<exists>gs n. fst (snd (handleGetGroups (run es (fst (handleJoinGroup ts gname c s)))))
                  = GroupsReply gs \<and> (gname, n) \<in> set gs))"
proof -
  have keep: "\<exists>g \<in> set (groups (run es' s')). name g = gname"
    if "\<exists>g \<in> set (groups s'). name g = gname" for s' es'
  proof -
    from that have "gname \<in> set (map name (groups s'))" by auto
    with run_group_names [of s' es'] have "gname \<in> set (map name (groups (run es' s')))"
      by blast
    then show ?thesis by auto
  qed
  have created: "\<exists>g \<in> set (groups (fst (handleJoinGroup ts gname c s))). name g = gname"
    if "\<exists>u \<in> set (users s). socketId u = c"
  proof -
    from that obtain usr where u: "find (\<lambda>u. socketId u = c) (users s) = Some usr"
      using find_exists_Some [of "users s" "\<lambda>u. socketId u = c"] by blast
    from join_makes_member [OF u, of gname ts] obtain grp
      where "find (\<lambda>g. name g = gname) (groups (fst (handleJoinGroup ts gname c s))) = Some grp"
      by blast
    from find_Some_holds [OF this] show ?thesis by blast
  qed
  have listed: "\<exists>gs n. fst (snd (handleGetGroups s')) = GroupsReply gs \<and> (gname, n) \<in> set gs"
    if "\<exists>g \<in> set (groups s'). name g = gname" for s'
  proof -
    from that obtain g where "g \<in> set (groups s')" "name g = gname" by blast
    then have "(gname, length (members g)) \<in> set (map (\<lambda>g. (name g, length (members g))) (groups s'))"
      by force
    then show ?thesis by (auto simp: handleGetGroups_def)
  qed
  from keep created listed show ?thesis by blast
qed

theorem groups_never_removed_witness:
  "(\<exists>u \<in> set (users \<lparr>users = [\<lparr>id_user = ''i1'', username = ''alice'', socketId = ''c1''\<rparr>],
                        groups = []\<rparr>). socketId u = ''c1'')
   \<and> run [(''c1'', LeaveGroup ''t2'' ''g''), (''c1'', Disconnect)]
       (fst (handleJoinGroup ''t1'' ''g'' ''c1''
          \<lparr>users = [\<lparr>id_user = ''i1'', username = ''alice'', socketId = ''c1''\<rparr>], groups = []\<rparr>))
     = \<lparr>users = [], groups = [\<lparr>name = ''g'', members = []\<rparr>]\<rparr>
   \<and> (\<exists>g \<in> set (groups (run [(''c1'', LeaveGroup ''t2'' ''g''), (''c1'', Disconnect)]
       (fst (handleJoinGroup ''t1'' ''g'' ''c1''
          \<lparr>users = [\<lparr>id_user = ''i1'', username = ''alice'', socketId = ''c1''\<rparr>], groups = []\<rparr>)))).
        name g = ''g'')
   \<and> fst (snd (handleGetGroups (run [(''c1'', LeaveGroup ''t2'' ''g''), (''c1'', Disconnect)]
       (fst (handleJoinGroup ''t1'' ''g'' ''c1''
          \<lparr>users = [\<lparr>id_user = ''i1'', username = ''alice'', socketId = ''c1''\<rparr>], groups = []\<rparr>)))))
     = GroupsReply [(''g'', 0)]"
proof -
  have e: "run [(''c1'', LeaveGroup ''t2'' ''g''), (''c1'', Disconnect)]
       (fst (handleJoinGroup ''t1'' ''g'' ''c1''
          \<lparr>users = [\<lparr>id_user = ''i1'', username = ''alice'', socketId = ''c1''\<rparr>], groups = []\<rparr>))
     = \<lparr>users = [], groups = [\<lparr>name = ''g'', members = []\<rparr>]\<rparr>"
    by (simp add: handleJoinGroup_def handleLeaveGroup_def handleDisconnect_def Let_def)
  have u: "\<exists>u \<in> set (users \<lparr>users = [\<lparr>id_user = ''i1'', username = ''alice'', socketId = ''c1''\<rparr>],
                        groups = []\<rparr>). socketId u = ''c1''"
    by simp
  have l: "fst (snd (handleGetGroups \<lparr>users = [], groups = [\<lparr>name = ''g'', members = []\<rparr>]\<rparr>))
     = GroupsReply [(''g'', 0)]"
    by (simp add: handleGetGroups_def)
  from groups_never_removed
      [where s = "\<lparr>users = [\<lparr>id_user = ''i1'', username = ''alice'', socketId = ''c1''\<rparr>],
                   groups = []\<rparr>"
         and c = "''c1''" and gname = "''g''" and ts = "''t1''"
         and es = "[(''c1'', LeaveGroup ''t2'' ''g''), (''c1'', Disconnect)]"] u
  have "\<exists>g \<in> set (groups (run [(''c1'', LeaveGroup ''t2'' ''g''), (''c1'', Disconnect)]
       (fst (handleJoinGroup ''t1'' ''g'' ''c1''
          \<lparr>users = [\<lparr>id_user = ''i1'', username = ''alice'', socketId = ''c1''\<rparr>], groups = []\<rparr>)))).
        name g = ''g''"
    by blast
  with u e l show ?thesis by simp
qed

end
